theory Spec2Isabelle
  imports Complex_Main "HOL-Library.Multiset" "HOL-Library.Word"
begin

section \<open>Numbers\<close>

text \<open>
  A tensor element, a loss and a score are floating-point numbers. The model keeps the
  three special values, because the comparisons of the source behave differently on
  them, and computes on finite values with exact real arithmetic: the rounding and the
  overflow of the results of arithmetic, and signed zeros, are left out.
\<close>

datatype pyfloat = Finite real | PosInf | NegInf | NaN

text \<open>The comparisons \<open><\<close> and \<open>>\<close>: false as soon as one side is not a number.\<close>

fun flt :: "pyfloat \<Rightarrow> pyfloat \<Rightarrow> bool" where
  "flt NaN _ = False"
| "flt _ NaN = False"
| "flt (Finite a) (Finite b) = (a < b)"
| "flt (Finite _) PosInf = True"
| "flt (Finite _) NegInf = False"
| "flt PosInf _ = False"
| "flt NegInf NegInf = False"
| "flt NegInf _ = True"

definition fgt :: "pyfloat \<Rightarrow> pyfloat \<Rightarrow> bool" where
  "fgt a b = flt b a"

fun fle :: "pyfloat \<Rightarrow> pyfloat \<Rightarrow> bool" where
  "fle NaN _ = False"
| "fle _ NaN = False"
| "fle a b = (\<not> flt b a)"

fun fneg :: "pyfloat \<Rightarrow> pyfloat" where
  "fneg (Finite a) = Finite (- a)"
| "fneg PosInf = NegInf"
| "fneg NegInf = PosInf"
| "fneg NaN = NaN"

fun fadd :: "pyfloat \<Rightarrow> pyfloat \<Rightarrow> pyfloat" where
  "fadd NaN _ = NaN"
| "fadd _ NaN = NaN"
| "fadd (Finite a) (Finite b) = Finite (a + b)"
| "fadd (Finite _) PosInf = PosInf"
| "fadd (Finite _) NegInf = NegInf"
| "fadd PosInf NegInf = NaN"
| "fadd PosInf _ = PosInf"
| "fadd NegInf PosInf = NaN"
| "fadd NegInf _ = NegInf"

definition fsub :: "pyfloat \<Rightarrow> pyfloat \<Rightarrow> pyfloat" where
  "fsub a b = fadd a (fneg b)"

text \<open>The product of an infinity with a finite value takes the sign of the pair; with zero it is not a number.\<close>

definition signed_inf :: "real \<Rightarrow> pyfloat" where
  "signed_inf s = (if 0 < s then PosInf else if s < 0 then NegInf else NaN)"

fun fmul :: "pyfloat \<Rightarrow> pyfloat \<Rightarrow> pyfloat" where
  "fmul NaN _ = NaN"
| "fmul _ NaN = NaN"
| "fmul (Finite a) (Finite b) = Finite (a * b)"
| "fmul (Finite a) PosInf = signed_inf a"
| "fmul (Finite a) NegInf = signed_inf (- a)"
| "fmul PosInf (Finite b) = signed_inf b"
| "fmul NegInf (Finite b) = signed_inf (- b)"
| "fmul PosInf PosInf = PosInf"
| "fmul PosInf NegInf = NegInf"
| "fmul NegInf PosInf = NegInf"
| "fmul NegInf NegInf = PosInf"

text \<open>Division by a positive count, as the mean of a tensor and of the batch losses need it.\<close>

fun fdiv_count :: "pyfloat \<Rightarrow> nat \<Rightarrow> pyfloat" where
  "fdiv_count (Finite a) n = Finite (a / real n)"
| "fdiv_count x n = x"

definition fsum :: "pyfloat list \<Rightarrow> pyfloat" where
  "fsum xs = foldl fadd (Finite 0) xs"

text \<open>\<open>torch.mean\<close>: the sum over the number of elements; of an empty tensor it is \<open>nan\<close>.\<close>

definition torch_mean :: "pyfloat list \<Rightarrow> pyfloat" where
  "torch_mean xs = (if xs = [] then NaN else fdiv_count (fsum xs) (length xs))"

text \<open>
  A Python number given to a constructor: an \<open>int\<close> or a \<open>float\<close>. The tensor
  operations take an \<open>int\<close> only when it fits 64 signed bits and raise on a larger one;
  the type holds the ones they take.
\<close>

datatype pynum = PyInt "64 word" | PyFloat pyfloat

fun num_val :: "pynum \<Rightarrow> pyfloat" where
  "num_val (PyInt i) = Finite (of_int (sint i))"
| "num_val (PyFloat f) = f"

text \<open>
  The tensors of this program have the element type \<open>float32\<close>, and a Python number that
  meets a tensor is converted to it first: rounded to the nearest value with 24
  significant bits, to the even one of two nearest, with the least exponent \<open>-126\<close> and
  infinity from \<open>2^128\<close> on. \<open>binade\<close> finds the exponent above the least one by halving.
\<close>

definition round_half_even :: "real \<Rightarrow> int" where
  "round_half_even q =
     (let f = \<lfloor>q\<rfloor>; d = q - of_int f
      in if d < 1 / 2 then f else if 1 / 2 < d then f + 1 else if even f then f else f + 1)"

fun binade :: "nat \<Rightarrow> real \<Rightarrow> nat" where
  "binade 0 y = 0"
| "binade (Suc fuel) y = (if 2 \<le> y then Suc (binade fuel (y / 2)) else 0)"

definition float32_of_real :: "real \<Rightarrow> pyfloat" where
  "float32_of_real x =
     (let n = binade 254 (\<bar>x\<bar> * 2 ^ 126);
          ulp = 2 ^ n / 2 ^ 149;
          r = of_int (round_half_even (\<bar>x\<bar> / ulp)) * ulp
      in if 2 ^ 128 \<le> r then (if 0 < x then PosInf else NegInf)
         else Finite (if x < 0 then - r else r))"

fun to_float32 :: "pyfloat \<Rightarrow> pyfloat" where
  "to_float32 (Finite x) = float32_of_real x"
| "to_float32 x = x"

definition as_float32 :: "pynum \<Rightarrow> pyfloat" where
  "as_float32 s = to_float32 (num_val s)"

text \<open>
  The greatest finite \<open>float32\<close>, and the numbers within the range of \<open>float32\<close>. A
  finite number beyond it overflows to an infinity in a comparison, while other
  operations of the library refuse it; the statement about the bands is made within the
  range.
\<close>

definition float32_max :: real where
  "float32_max = (2 ^ 24 - 1) * 2 ^ 104"

fun in_float32_range :: "pyfloat \<Rightarrow> bool" where
  "in_float32_range (Finite x) = (\<bar>x\<bar> \<le> float32_max)"
| "in_float32_range x = True"

datatype error =
    ShapeMismatch
  | SizeMismatch
  | ZeroDivisionError
  | UnboundLocalError
  | InvalidReference
  | ValueError
  | FileExistsError
  | FileNotFoundError
  | NotADirectoryError
  | IsADirectoryError

section \<open>WeightedMSELoss (scripts/training.py)\<close>

record WeightedMSELoss =
  high_threshold :: pynum
  low_threshold :: pynum
  high_weight :: pynum
  low_weight :: pynum
  very_low_weight :: pynum

text \<open>The defaults of \<open>__init__\<close>.\<close>

definition default_loss :: WeightedMSELoss where
  "default_loss =
     \<lparr>high_threshold = PyFloat (Finite 14.5), low_threshold = PyInt 4,
      high_weight = PyInt 6, low_weight = PyInt 1, very_low_weight = PyInt 3\<rparr>"

text \<open>
  The two nested \<open>torch.where\<close> of \<open>forward\<close>, for one element of \<open>targets\<close>:
  the outer condition is tested first. The thresholds are compared, and the weights are
  multiplied, as \<open>float32\<close> values.
\<close>

definition weight_of :: "WeightedMSELoss \<Rightarrow> pyfloat \<Rightarrow> pyfloat" where
  "weight_of c t =
     (if fgt t (as_float32 (high_threshold c)) then as_float32 (high_weight c)
      else if flt t (as_float32 (low_threshold c)) then as_float32 (very_low_weight c)
      else as_float32 (low_weight c))"

text \<open>
  Tensors are lists of elements. Two tensors of different lengths are broadcast when
  one of them has a single element, and the operation raises otherwise.
\<close>

definition broadcast :: "pyfloat list \<Rightarrow> pyfloat list \<Rightarrow> error + (pyfloat list \<times> pyfloat list)" where
  "broadcast xs ys =
     (if length xs = length ys then Inr (xs, ys)
      else if length xs = 1 then Inr (replicate (length ys) (hd xs), ys)
      else if length ys = 1 then Inr (xs, replicate (length xs) (hd ys))
      else Inl ShapeMismatch)"

definition forward :: "WeightedMSELoss \<Rightarrow> pyfloat list \<Rightarrow> pyfloat list \<Rightarrow> error + pyfloat" where
  "forward c outputs targets =
     (case broadcast outputs targets of
        Inl e \<Rightarrow> Inl e
      | Inr (os, ts) \<Rightarrow>
          let squared_diff = map2 (\<lambda>x t. fmul (fsub x t) (fsub x t)) os ts;
              weights = map (weight_of c) targets
          in (case broadcast weights squared_diff of
                Inl e \<Rightarrow> Inl e
              | Inr (ws, sq) \<Rightarrow>
                  let weighted_squared_diff = map2 fmul ws sq;
                      loss = torch_mean weighted_squared_diff
                  in Inr loss))"

text \<open>The plain mean squared error of the specification: the mean of the squared differences.\<close>

definition plain_mse :: "pyfloat list \<Rightarrow> pyfloat list \<Rightarrow> pyfloat" where
  "plain_mse outputs targets =
     torch_mean (map2 (\<lambda>x t. fmul (fsub x t) (fsub x t)) outputs targets)"

section \<open>train_model (scripts/training.py)\<close>

text \<open>The criterion that \<open>train_model\<close> builds, with every argument written out.\<close>

definition train_criterion :: WeightedMSELoss where
  "train_criterion =
     \<lparr>high_threshold = PyFloat (Finite 14.5), low_threshold = PyFloat (Finite 4.0),
      high_weight = PyInt 6, low_weight = PyInt 1, very_low_weight = PyInt 3\<rparr>"

type_synonym row = "pyfloat list"
type_synonym batch = "row list \<times> pyfloat list"

text \<open>
  What \<open>train_model\<close> takes from outside: the network applied to a batch of rows, one
  optimizer update (\<open>zero_grad\<close>, \<open>backward\<close> and \<open>step\<close>) for a batch, the switch
  between training and inference mode, the snapshot of the parameters, and the order
  in which the shuffling loader of the training set yields the samples in an epoch.
  The learning rate belongs to the optimizer update.
\<close>

record ('m, 'sd) collaborators =
  net :: "'m \<Rightarrow> row list \<Rightarrow> pyfloat list"
  adam_step :: "'m \<Rightarrow> row list \<Rightarrow> pyfloat list \<Rightarrow> 'm"
  set_training :: "bool \<Rightarrow> 'm \<Rightarrow> 'm"
  state_dict :: "'m \<Rightarrow> 'sd"
  reshuffle :: "nat \<Rightarrow> (row \<times> pyfloat) list \<Rightarrow> (row \<times> pyfloat) list"

text \<open>A \<open>DataLoader\<close> without \<open>drop_last\<close>: consecutive batches of \<open>n\<close> samples, the last one shorter.\<close>

function batches_of :: "nat \<Rightarrow> 'a list \<Rightarrow> 'a list list" where
  "batches_of n xs =
     (if n = 0 \<or> xs = [] then [] else take n xs # batches_of n (drop n xs))"
  by pat_completeness auto
termination
  by (relation "measure (\<lambda>(n, xs). length xs)") auto

declare batches_of.simps [simp del]

definition loader :: "(row \<times> pyfloat) list \<Rightarrow> batch list" where
  "loader samples = map (\<lambda>b. (map fst b, map snd b)) (batches_of 32 samples)"

text \<open>The line printed every hundredth epoch: the values it formats, in their order.\<close>

record progress_line =
  pl_epoch :: nat
  pl_epochs :: nat
  pl_loss :: pyfloat
  pl_val_loss :: pyfloat

text \<open>
  What is on record of a finished epoch, for stating when a write happens: its mean
  validation loss, whether it called \<open>torch.save\<close>, and the parameters at its end.
\<close>

record 'sd epoch_obs =
  obs_val_loss :: pyfloat
  obs_saved :: bool
  obs_params :: 'sd

text \<open>
  The state of a run: the model, the local variable \<open>loss\<close> (unbound before its first
  assignment), \<open>best_val_loss\<close>, the files by path, the standard output, and the record
  of the finished epochs.
\<close>

record ('m, 'sd) train_state =
  model :: 'm
  loss :: "pyfloat option"
  best_val_loss :: pyfloat
  files :: "string \<rightharpoonup> 'sd"
  stdout :: "progress_line list"
  observed :: "'sd epoch_obs list"

text \<open>The loop over the training batches: the loss is assigned, then the parameters are updated.\<close>

fun train_batches ::
  "('m, 'sd) collaborators \<Rightarrow> WeightedMSELoss \<Rightarrow> batch list \<Rightarrow> ('m, 'sd) train_state
     \<Rightarrow> error + ('m, 'sd) train_state" where
  "train_batches ext criterion [] s = Inr s"
| "train_batches ext criterion ((inputs, targets) # bs) s =
     (let outputs = net ext (model s) inputs
      in case forward criterion outputs targets of
           Inl e \<Rightarrow> Inl e
         | Inr l \<Rightarrow>
             train_batches ext criterion bs
               (s\<lparr>loss := Some l, model := adam_step ext (model s) inputs targets\<rparr>))"

text \<open>
  The loop over the validation batches. It assigns the same variable \<open>loss\<close> and adds
  the loss to \<open>val_loss\<close>, which is carried beside the state.
\<close>

fun val_batches ::
  "('m, 'sd) collaborators \<Rightarrow> WeightedMSELoss \<Rightarrow> batch list
     \<Rightarrow> ('m, 'sd) train_state \<times> pyfloat \<Rightarrow> error + (('m, 'sd) train_state \<times> pyfloat)" where
  "val_batches ext criterion [] (s, val_loss) = Inr (s, val_loss)"
| "val_batches ext criterion ((inputs, targets) # bs) (s, val_loss) =
     (let outputs = net ext (model s) inputs
      in case forward criterion outputs targets of
           Inl e \<Rightarrow> Inl e
         | Inr l \<Rightarrow> val_batches ext criterion bs (s\<lparr>loss := Some l\<rparr>, fadd val_loss l))"

text \<open>The end of an epoch: the comparison with the best loss, the save, and the progress line.\<close>

definition save_if_better ::
  "('m, 'sd) collaborators \<Rightarrow> string \<Rightarrow> pyfloat \<Rightarrow> ('m, 'sd) train_state \<Rightarrow> ('m, 'sd) train_state" where
  "save_if_better ext model_path val_loss s =
     (if flt val_loss (best_val_loss s)
      then s\<lparr>best_val_loss := val_loss,
             files := (files s)(model_path \<mapsto> state_dict ext (model s)),
             observed := observed s @
               [\<lparr>obs_val_loss = val_loss, obs_saved = True, obs_params = state_dict ext (model s)\<rparr>]\<rparr>
      else s\<lparr>observed := observed s @
               [\<lparr>obs_val_loss = val_loss, obs_saved = False, obs_params = state_dict ext (model s)\<rparr>]\<rparr>)"

definition print_progress ::
  "nat \<Rightarrow> nat \<Rightarrow> pyfloat \<Rightarrow> ('m, 'sd) train_state \<Rightarrow> error + ('m, 'sd) train_state" where
  "print_progress epoch epochs val_loss s =
     (if (epoch + 1) mod 100 = 0
      then (case loss s of
              None \<Rightarrow> Inl UnboundLocalError
            | Some l \<Rightarrow>
                Inr (s\<lparr>stdout := stdout s @
                  [\<lparr>pl_epoch = epoch + 1, pl_epochs = epochs, pl_loss = l, pl_val_loss = val_loss\<rparr>]\<rparr>))
      else Inr s)"

text \<open>One pass of the loop over the epochs.\<close>

definition epoch_body ::
  "('m, 'sd) collaborators \<Rightarrow> (row \<times> pyfloat) list \<Rightarrow> (row \<times> pyfloat) list \<Rightarrow> nat \<Rightarrow> string
     \<Rightarrow> nat \<Rightarrow> ('m, 'sd) train_state \<Rightarrow> error + ('m, 'sd) train_state" where
  "epoch_body ext train_dataset val_dataset epochs model_path epoch s =
     (let train_loader = loader (reshuffle ext epoch train_dataset);
          val_loader = loader val_dataset
      in case train_batches ext train_criterion train_loader
                (s\<lparr>model := set_training ext True (model s)\<rparr>) of
           Inl e \<Rightarrow> Inl e
         | Inr s1 \<Rightarrow>
            (case val_batches ext train_criterion val_loader
                    (s1\<lparr>model := set_training ext False (model s1)\<rparr>, Finite 0) of
               Inl e \<Rightarrow> Inl e
             | Inr (s2, val_loss) \<Rightarrow>
                 if length val_loader = 0 then Inl ZeroDivisionError
                 else let val_loss = fdiv_count val_loss (length val_loader)
                      in print_progress epoch epochs val_loss
                           (save_if_better ext model_path val_loss s2)))"

text \<open>\<open>for epoch in range(epochs)\<close>: the first \<open>n\<close> passes, then pass number \<open>n\<close>.\<close>

fun epochs_loop ::
  "('m, 'sd) collaborators \<Rightarrow> (row \<times> pyfloat) list \<Rightarrow> (row \<times> pyfloat) list \<Rightarrow> nat \<Rightarrow> string
     \<Rightarrow> nat \<Rightarrow> ('m, 'sd) train_state \<Rightarrow> error + ('m, 'sd) train_state" where
  "epochs_loop ext train_dataset val_dataset epochs model_path 0 s = Inr s"
| "epochs_loop ext train_dataset val_dataset epochs model_path (Suc n) s =
     (case epochs_loop ext train_dataset val_dataset epochs model_path n s of
        Inl e \<Rightarrow> Inl e
      | Inr s' \<Rightarrow> epoch_body ext train_dataset val_dataset epochs model_path n s')"

text \<open>The state before the first epoch: \<open>best_val_loss = float('inf')\<close>, \<open>loss\<close> not yet bound.\<close>

definition initial_state :: "'m \<Rightarrow> (string \<rightharpoonup> 'sd) \<Rightarrow> ('m, 'sd) train_state" where
  "initial_state m fs =
     \<lparr>model = m, loss = None, best_val_loss = PosInf, files = fs, stdout = [], observed = []\<rparr>"

text \<open>
  \<open>train_model\<close>. A \<open>TensorDataset\<close> refuses features and targets of different
  lengths. The run starts from the files already there.
\<close>

definition train_model ::
  "('m, 'sd) collaborators \<Rightarrow> 'm \<Rightarrow> row list \<Rightarrow> pyfloat list \<Rightarrow> row list \<Rightarrow> pyfloat list
     \<Rightarrow> nat \<Rightarrow> string \<Rightarrow> (string \<rightharpoonup> 'sd) \<Rightarrow> error + ('m, 'sd) train_state" where
  "train_model ext m X_train y_train X_val y_val epochs model_path fs =
     (if length X_train = length y_train \<and> length X_val = length y_val
      then epochs_loop ext (zip X_train y_train) (zip X_val y_val) epochs model_path epochs
             (initial_state m fs)
      else Inl SizeMismatch)"

text \<open>
  The best loss after a sequence of mean validation losses, as the loop tracks it:
  it starts at infinity and a loss replaces it when the comparison \<open><\<close> holds.
\<close>

definition best_of :: "pyfloat list \<Rightarrow> pyfloat" where
  "best_of vs = foldl (\<lambda>b v. if flt v b then v else b) PosInf vs"

subsection \<open>Collaborators for concrete runs\<close>

text \<open>
  A network that ignores its parameters' values and reads its outputs for the validation
  set from a table, one entry per optimizer update so far; the model is the number of
  updates. On a batch of one row (the training set of the runs below) it answers 10.
\<close>

definition scripted :: "pyfloat list list \<Rightarrow> (int, int) collaborators" where
  "scripted table =
     \<lparr>net = (\<lambda>m rows. if length rows = 1 then [Finite 10]
                       else (case drop (nat m - 1) table of [] \<Rightarrow> [] | out # _ \<Rightarrow> out)),
      adam_step = (\<lambda>m inputs targets. m + 1),
      set_training = (\<lambda>b m. m),
      state_dict = (\<lambda>m. m),
      reshuffle = (\<lambda>epoch samples. samples)\<rparr>"

definition four_rows :: "row list" where
  "four_rows = [[Finite 0], [Finite 1], [Finite 2], [Finite 3]]"

definition two_rows :: "row list" where
  "two_rows = [[Finite 0], [Finite 1]]"

text \<open>A network that answers the first feature of each row, and an optimizer that leaves it alone.\<close>

definition first_feature :: "(int, int) collaborators" where
  "first_feature =
     \<lparr>net = (\<lambda>m rows. map hd rows),
      adam_step = (\<lambda>m inputs targets. m),
      set_training = (\<lambda>b m. m),
      state_dict = (\<lambda>m. m),
      reshuffle = (\<lambda>epoch samples. samples)\<rparr>"

text \<open>A validation set of 33 samples: two batches, of 32 samples and of one.\<close>

definition val33 :: "(row \<times> pyfloat) list" where
  "val33 = zip (replicate 32 [Finite 11] @ [[Finite 13]]) (replicate 32 (Finite 10) @ [Finite 10])"

section \<open>permutation_importance (scripts/evaluation.py)\<close>

text \<open>
  A two-dimensional array: its number of columns (\<open>shape[1]\<close>) and its rows. Arrays are
  objects: the heap is the list of the arrays allocated so far, and a reference is an
  index into it. A reference outside the heap cannot arise in the source; reading one is
  an error of the model.
\<close>

record ndarray =
  shape1 :: nat
  rows :: "row list"

type_synonym heap = "ndarray list"

text \<open>\<open>X.copy()\<close>: a new array with the same contents, at a fresh reference.\<close>

definition np_copy :: "heap \<Rightarrow> nat \<Rightarrow> error + (heap \<times> nat)" where
  "np_copy h a = (if a < length h then Inr (h @ [h ! a], length h) else Inl InvalidReference)"

text \<open>
  \<open>X[:, col]\<close> is a view of the array: reading it gives the column, and writing through
  it (an in-place shuffle, or the assignment \<open>X[:, col] = values\<close>) changes the array.
  \<open>X[:, col].copy()\<close> is the column as a value of its own.
\<close>

definition get_column :: "ndarray \<Rightarrow> nat \<Rightarrow> pyfloat list" where
  "get_column X col = map (\<lambda>r. r ! col) (rows X)"

definition set_column :: "ndarray \<Rightarrow> nat \<Rightarrow> pyfloat list \<Rightarrow> ndarray" where
  "set_column X col values = X\<lparr>rows := map2 (\<lambda>r v. r[col := v]) (rows X) values\<rparr>"

text \<open>
  \<open>np.random.shuffle\<close>: for \<open>i\<close> from the last index down to 1, exchange the elements
  at \<open>i\<close> and at a random index between 0 and \<open>i\<close>. The generator is a stream of draws
  \<open>gen\<close> and the number \<open>k\<close> of draws taken so far.
\<close>

fun shuffle_from :: "(nat \<Rightarrow> nat) \<Rightarrow> nat \<Rightarrow> nat \<Rightarrow> 'a list \<Rightarrow> 'a list \<times> nat" where
  "shuffle_from gen k 0 xs = (xs, k)"
| "shuffle_from gen k (Suc i) xs =
     (let j = gen k mod (Suc i + 1)
      in shuffle_from gen (Suc k) i (xs[Suc i := xs ! j, j := xs ! Suc i]))"

definition np_shuffle :: "(nat \<Rightarrow> nat) \<Rightarrow> nat \<Rightarrow> 'a list \<Rightarrow> 'a list \<times> nat" where
  "np_shuffle gen k xs = shuffle_from gen k (length xs - 1) xs"

text \<open>
  The loop over the columns. The state is the heap, the number of draws taken and the
  list \<open>importances\<close>; \<open>X_test_copy\<close> is the reference of the copy.
\<close>

fun columns_loop ::
  "(row list \<Rightarrow> pyfloat list) \<Rightarrow> (pyfloat list \<Rightarrow> pyfloat list \<Rightarrow> pyfloat) \<Rightarrow> (nat \<Rightarrow> nat)
     \<Rightarrow> pyfloat list \<Rightarrow> pyfloat \<Rightarrow> nat \<Rightarrow> nat list \<Rightarrow> heap \<times> nat \<times> pyfloat list
     \<Rightarrow> heap \<times> nat \<times> pyfloat list" where
  "columns_loop predict metric gen y_test baseline_score X_test_copy [] st = st"
| "columns_loop predict metric gen y_test baseline_score X_test_copy (col # cols) (h, k, importances) =
     (let original_feature = get_column (h ! X_test_copy) col;
          (shuffled, k1) = np_shuffle gen k (get_column (h ! X_test_copy) col);
          h1 = h[X_test_copy := set_column (h ! X_test_copy) col shuffled];
          shuffled_score = metric y_test (predict (rows (h1 ! X_test_copy)));
          importance = fsub shuffled_score baseline_score;
          h2 = h1[X_test_copy := set_column (h1 ! X_test_copy) col original_feature]
      in columns_loop predict metric gen y_test baseline_score X_test_copy cols
           (h2, k1, importances @ [importance]))"

text \<open>
  \<open>permutation_importance\<close>. The model and the metric are functions from outside,
  taken to return; the model reads a tensor built from the array, which is the list of
  its rows. The result is the heap and the generator after the call, and the importances.
\<close>

definition permutation_importance ::
  "(row list \<Rightarrow> pyfloat list) \<Rightarrow> (pyfloat list \<Rightarrow> pyfloat list \<Rightarrow> pyfloat) \<Rightarrow> (nat \<Rightarrow> nat)
     \<Rightarrow> pyfloat list \<Rightarrow> heap \<Rightarrow> nat \<Rightarrow> nat \<Rightarrow> error + (heap \<times> nat \<times> pyfloat list)" where
  "permutation_importance predict metric gen y_test h X_test k =
     (case np_copy h X_test of
        Inl e \<Rightarrow> Inl e
      | Inr (h1, X_test_copy) \<Rightarrow>
          let baseline_score = metric y_test (predict (rows (h1 ! X_test)))
          in Inr (columns_loop predict metric gen y_test baseline_score X_test_copy
                    [0..<shape1 (h1 ! X_test_copy)] (h1, k, [])))"

text \<open>
  The importance of one column by the words of the specification: the score with only
  that column of the original array shuffled, minus the score of the original array.
\<close>

definition column_importance ::
  "(row list \<Rightarrow> pyfloat list) \<Rightarrow> (pyfloat list \<Rightarrow> pyfloat list \<Rightarrow> pyfloat) \<Rightarrow> (nat \<Rightarrow> nat)
     \<Rightarrow> pyfloat list \<Rightarrow> ndarray \<Rightarrow> nat \<Rightarrow> nat \<Rightarrow> pyfloat" where
  "column_importance predict metric gen y_test X k col =
     fsub (metric y_test
             (predict (rows (set_column X col (fst (np_shuffle gen k (get_column X col)))))))
          (metric y_test (predict (rows X)))"

text \<open>A model that answers the sum of the features of each row, and a small array.\<close>

definition row_sum :: "row list \<Rightarrow> pyfloat list" where
  "row_sum rs = map fsum rs"

definition small_X :: ndarray where
  "small_X = \<lparr>shape1 = 2, rows = [[Finite 1, Finite 10], [Finite 2, Finite 20], [Finite 3, Finite 30]]\<rparr>"

section \<open>evaluate_model (scripts/evaluation.py)\<close>

text \<open>
  What \<open>evaluate_model\<close> acts on: the mode of the model and the switch of gradient
  tracking, the calls of the model (each with the mode and the switch at the time of the
  call, and its input), the standard output, and the file system.
\<close>

datatype plot_item =
    Scatter "pyfloat list" "pyfloat list"
  | DashedLine "pyfloat list" "pyfloat list"
  | XLabel string
  | YLabel string
  | Title string

datatype node = Directory | ImageFile "plot_item list" | OtherFile



subsection \<open>The metrics of the library\<close>






subsection \<open>The function\<close>














section \<open>plot_distribution (scripts/evaluation.py)\<close>

text \<open>
  The overlap of \<open>plot_distribution\<close> is computed from the two samples alone; the
  samples are lists of finite values. Division is the division of arrays: by zero it
  gives an infinity, and \<open>nan\<close> for zero by zero.
\<close>

fun fdiv :: "pyfloat \<Rightarrow> pyfloat \<Rightarrow> pyfloat" where
  "fdiv NaN _ = NaN"
| "fdiv _ NaN = NaN"
| "fdiv (Finite a) (Finite b) = (if b = 0 then signed_inf a else Finite (a / b))"
| "fdiv (Finite _) _ = Finite 0"
| "fdiv PosInf (Finite b) = (if b < 0 then NegInf else PosInf)"
| "fdiv NegInf (Finite b) = (if b < 0 then PosInf else NegInf)"
| "fdiv _ _ = NaN"

text \<open>\<open>np.linspace(start, stop, num)\<close>: \<open>num\<close> points, the last one \<open>stop\<close> itself.\<close>

definition linspace :: "real \<Rightarrow> real \<Rightarrow> nat \<Rightarrow> real list" where
  "linspace start stop num =
     map (\<lambda>i. start + real i * ((stop - start) / real (num - 1))) [0..<num - 1] @ [stop]"

text \<open>
  The range of a histogram given a number of bins: from the least to the greatest value,
  widened by a half on each side when they are equal, and from 0 to 1 for no value.
\<close>

definition histogram_range :: "real list \<Rightarrow> real \<times> real" where
  "histogram_range a =
     (case a of
        [] \<Rightarrow> (0, 1)
      | x # xs \<Rightarrow>
          let first_edge = foldl min x xs; last_edge = foldl max x xs
          in if first_edge = last_edge then (first_edge - 1 / 2, last_edge + 1 / 2)
             else (first_edge, last_edge))"

text \<open>
  The counts of a histogram with given edges, by cumulative counts as the library does
  it: every bin holds the values from its left edge up to, but without, its right edge,
  and the last bin holds its right edge too. Values outside the edges are not counted.
  The histogram with a number of bins has the same bins.
\<close>

definition cumulative :: "real list \<Rightarrow> real list \<Rightarrow> int list" where
  "cumulative bin_edges a =
     map (\<lambda>e. int (length (filter (\<lambda>x. x < e) a))) (butlast bin_edges)
     @ [int (length (filter (\<lambda>x. x \<le> last bin_edges) a))]"

definition np_diff :: "'a::minus list \<Rightarrow> 'a list" where
  "np_diff xs = map2 (\<lambda>a b. b - a) xs (tl xs)"

text \<open>\<open>density=True\<close>: \<open>n / db / n.sum()\<close>.\<close>

definition histogram_density :: "real list \<Rightarrow> real list \<Rightarrow> pyfloat list" where
  "histogram_density bin_edges a =
     (let n = np_diff (cumulative bin_edges a);
          db = np_diff bin_edges
      in map2 (\<lambda>c w. fdiv (fdiv (Finite (real_of_int c)) (Finite w)) (Finite (real_of_int (sum_list n))))
           n db)"

text \<open>\<open>np.minimum\<close>: \<open>nan\<close> as soon as one argument is.\<close>

fun np_minimum :: "pyfloat \<Rightarrow> pyfloat \<Rightarrow> pyfloat" where
  "np_minimum NaN _ = NaN"
| "np_minimum _ NaN = NaN"
| "np_minimum x y = (if flt y x then y else x)"

text \<open>The overlap for a number of bins, and \<open>plot_distribution\<close>, which returns it for 30 bins.\<close>

definition overlap_of :: "nat \<Rightarrow> real list \<Rightarrow> real list \<Rightarrow> pyfloat" where
  "overlap_of nbins y_test y_test_pred =
     (let (first_edge, last_edge) = histogram_range y_test;
          bins = linspace first_edge last_edge (nbins + 1);
          hist_actual = histogram_density bins y_test;
          hist_pred = histogram_density bins y_test_pred
      in fsum (map2 fmul (map2 np_minimum hist_actual hist_pred) (map Finite (np_diff bins))))"

definition plot_distribution :: "real list \<Rightarrow> real list \<Rightarrow> pyfloat" where
  "plot_distribution y_test y_test_pred = overlap_of 30 y_test y_test_pred"

section \<open>Properties of the weighted loss\<close>

lemma flt_irrefl: "\<not> flt a a"
  by (cases a) simp_all

lemma fle_not_flt: "fle a b \<Longrightarrow> \<not> flt b a"
  by (cases a; cases b) simp_all

lemma flt_fle_trans: "flt t a \<Longrightarrow> fle a b \<Longrightarrow> flt t b"
  by (cases t; cases a; cases b) simp_all

subsection \<open>Conversion to float32\<close>

lemma binade_eq: "2 ^ j \<le> y \<Longrightarrow> y < 2 ^ Suc j \<Longrightarrow> j \<le> fuel \<Longrightarrow> binade fuel y = j"
proof (induction fuel arbitrary: y j)
  case 0
  then show ?case by simp
next
  case (Suc fuel)
  show ?case
  proof (cases j)
    case 0
    with Suc.prems show ?thesis by simp
  next
    case (Suc k)
    with Suc.prems have "2 ^ k \<le> y / 2" "y / 2 < 2 ^ Suc k" "k \<le> fuel" by simp_all
    from Suc.IH [OF this] have "binade fuel (y / 2) = k" .
    moreover have "2 \<le> y"
    proof -
      have "(2::real) ^ 1 \<le> 2 ^ j" unfolding Suc by (intro power_increasing) simp_all
      with Suc.prems(1) show ?thesis by simp
    qed
    ultimately show ?thesis using Suc by simp
  qed
qed

text \<open>A value between \<open>2^j\<close> and \<open>2^(j+1)\<close> times \<open>2^-126\<close> is rounded on the grid of that binade.\<close>

lemma float32_rounded:
  assumes "2 ^ j \<le> \<bar>x\<bar> * 2 ^ 126" and "\<bar>x\<bar> * 2 ^ 126 < 2 ^ Suc j" and "j \<le> 253"
    and "round_half_even (\<bar>x\<bar> * 2 ^ 149 / 2 ^ j) = m" and "of_int m * 2 ^ j / 2 ^ 149 = r"
    and "r < 2 ^ 128" and "0 \<le> x"
  shows "float32_of_real x = Finite r"
proof -
  have n: "binade 254 (\<bar>x\<bar> * 2 ^ 126) = j"
    using assms(1-3) by (intro binade_eq) simp_all
  have q: "\<bar>x\<bar> / (2 ^ j / 2 ^ 149) = \<bar>x\<bar> * 2 ^ 149 / 2 ^ j"
    by (simp add: field_simps)
  show ?thesis
    unfolding float32_of_real_def n Let_def q assms(4) using assms(5-7) by auto
qed

lemma float32_1: "float32_of_real 1 = Finite 1"
  by (rule float32_rounded [where j = 126 and m = "2 ^ 23"]) (simp_all add: round_half_even_def)

lemma float32_3: "float32_of_real 3 = Finite 3"
  by (rule float32_rounded [where j = 127 and m = "3 * 2 ^ 22"]) (simp_all add: round_half_even_def)

lemma float32_4: "float32_of_real 4 = Finite 4"
  by (rule float32_rounded [where j = 128 and m = "2 ^ 23"]) (simp_all add: round_half_even_def)

lemma float32_6: "float32_of_real 6 = Finite 6"
  by (rule float32_rounded [where j = 128 and m = "3 * 2 ^ 22"]) (simp_all add: round_half_even_def)

lemma float32_14_5: "float32_of_real (29 / 2) = Finite (29 / 2)"
  by (rule float32_rounded [where j = 129 and m = "29 * 2 ^ 19"]) (simp_all add: round_half_even_def)

lemma float32_2_30: "float32_of_real 1073741824 = Finite 1073741824"
  by (rule float32_rounded [where j = 156 and m = "2 ^ 23"]) (simp_all add: round_half_even_def)

text \<open>\<open>2^24 + 1\<close> lies half way between two values of the grid and goes to the even one, \<open>2^24\<close>.\<close>

lemma float32_2_24_plus_1: "float32_of_real 16777217 = Finite 16777216"
  by (rule float32_rounded [where j = 150 and m = "2 ^ 23"]) (simp_all add: round_half_even_def)

lemmas float32_simps =
  as_float32_def float32_1 float32_3 float32_4 float32_6 float32_14_5 float32_2_30
  float32_2_24_plus_1

lemma weight_of_train:
  "weight_of train_criterion t =
     (if flt (Finite (29 / 2)) t then Finite 6 else if flt t (Finite 4) then Finite 3 else Finite 1)"
  by (simp add: weight_of_def train_criterion_def fgt_def float32_simps)

subsection \<open>The bands\<close>

text \<open>
  Claim C2, amended. The thresholds are compared, and the weights applied, as converted
  to the \<open>float32\<close> of the tensors. For thresholds and weights within the range of
  \<open>float32\<close>, when the converted \<open>low_threshold\<close> is at most the converted
  \<open>high_threshold\<close>, the weight of a target \<open>t\<close> is the converted \<open>high_weight\<close>
  when \<open>t\<close> is greater than the converted \<open>high_threshold\<close>, the converted
  \<open>very_low_weight\<close> when \<open>t\<close> is less than the converted \<open>low_threshold\<close>, and the
  converted \<open>low_weight\<close> otherwise; a target equal to either converted threshold gets
  \<open>low_weight\<close>, the two comparisons being strict. For thresholds and weights that
  \<open>float32\<close> holds exactly, as the defaults, this is the claim in its own words.
\<close>

theorem weight_of_bands:
  assumes "fle (as_float32 (low_threshold c)) (as_float32 (high_threshold c))"
    and "in_float32_range (num_val (high_threshold c))"
    and "in_float32_range (num_val (low_threshold c))"
    and "in_float32_range (num_val (high_weight c))"
    and "in_float32_range (num_val (low_weight c))"
    and "in_float32_range (num_val (very_low_weight c))"
  shows "(fgt t (as_float32 (high_threshold c)) \<longrightarrow> weight_of c t = as_float32 (high_weight c))
       \<and> (flt t (as_float32 (low_threshold c)) \<longrightarrow> weight_of c t = as_float32 (very_low_weight c))
       \<and> (\<not> fgt t (as_float32 (high_threshold c)) \<and> \<not> flt t (as_float32 (low_threshold c))
            \<longrightarrow> weight_of c t = as_float32 (low_weight c))
       \<and> weight_of c (as_float32 (high_threshold c)) = as_float32 (low_weight c)
       \<and> weight_of c (as_float32 (low_threshold c)) = as_float32 (low_weight c)
       \<and> (as_float32 (high_threshold c) = num_val (high_threshold c)
            \<and> as_float32 (low_threshold c) = num_val (low_threshold c)
            \<and> as_float32 (high_weight c) = num_val (high_weight c)
            \<and> as_float32 (low_weight c) = num_val (low_weight c)
            \<and> as_float32 (very_low_weight c) = num_val (very_low_weight c)
          \<longrightarrow> (fgt t (num_val (high_threshold c)) \<longrightarrow> weight_of c t = num_val (high_weight c))
              \<and> (flt t (num_val (low_threshold c)) \<longrightarrow> weight_of c t = num_val (very_low_weight c))
              \<and> (\<not> fgt t (num_val (high_threshold c)) \<and> \<not> flt t (num_val (low_threshold c))
                   \<longrightarrow> weight_of c t = num_val (low_weight c))
              \<and> weight_of c (num_val (high_threshold c)) = num_val (low_weight c)
              \<and> weight_of c (num_val (low_threshold c)) = num_val (low_weight c))"
proof -
  let ?lo = "as_float32 (low_threshold c)" and ?hi = "as_float32 (high_threshold c)"
  have below: "\<not> fgt t ?hi" if "flt t ?lo" for t
    using flt_fle_trans [OF that assms(1)] fle_not_flt [of t ?hi]
    by (cases t; cases ?hi) (simp_all add: fgt_def)
  have hi: "\<not> fgt ?hi ?hi" "\<not> flt ?hi ?lo"
    using assms(1) by (simp_all add: fgt_def flt_irrefl fle_not_flt)
  have lo: "\<not> fgt ?lo ?hi" "\<not> flt ?lo ?lo"
    using assms(1) by (simp_all add: fgt_def flt_irrefl fle_not_flt)
  have bands: "(fgt t ?hi \<longrightarrow> weight_of c t = as_float32 (high_weight c))
       \<and> (flt t ?lo \<longrightarrow> weight_of c t = as_float32 (very_low_weight c))
       \<and> (\<not> fgt t ?hi \<and> \<not> flt t ?lo \<longrightarrow> weight_of c t = as_float32 (low_weight c))
       \<and> weight_of c ?hi = as_float32 (low_weight c)
       \<and> weight_of c ?lo = as_float32 (low_weight c)"
    using below hi lo by (simp add: weight_of_def)
  then show ?thesis by metis
qed

text \<open>The default thresholds and weights, with a target in each band and on each boundary.\<close>

theorem weight_of_bands_witness:
  "fle (as_float32 (low_threshold default_loss)) (as_float32 (high_threshold default_loss))
   \<and> in_float32_range (num_val (high_threshold default_loss))
   \<and> in_float32_range (num_val (low_threshold default_loss))
   \<and> in_float32_range (num_val (high_weight default_loss))
   \<and> in_float32_range (num_val (low_weight default_loss))
   \<and> in_float32_range (num_val (very_low_weight default_loss))
   \<and> as_float32 (high_threshold default_loss) = num_val (high_threshold default_loss)
   \<and> as_float32 (low_threshold default_loss) = num_val (low_threshold default_loss)
   \<and> weight_of default_loss (Finite 20) = Finite 6
   \<and> weight_of default_loss (Finite 2) = Finite 3
   \<and> weight_of default_loss (Finite 10) = Finite 1
   \<and> weight_of default_loss (Finite 14.5) = Finite 1
   \<and> weight_of default_loss (Finite 4) = Finite 1"
  using weight_of_bands [of default_loss "Finite 20"] weight_of_bands [of default_loss "Finite 2"]
    weight_of_bands [of default_loss "Finite 10"]
  by (simp add: default_loss_def fgt_def float32_simps float32_max_def)

text \<open>
  Claim C2 as stated fails for a threshold that \<open>float32\<close> does not hold. With
  \<open>low_threshold = 16777217\<close> and \<open>high_threshold = 1073741824\<close>, the target \<open>16777216\<close>
  is less than \<open>low_threshold\<close> and not greater than \<open>high_threshold\<close>, so the claim gives
  it \<open>very_low_weight\<close>; the comparison is made with the converted threshold \<open>16777216\<close>,
  it is false, and the target gets \<open>low_weight\<close>.
\<close>

theorem weight_of_rounded_threshold_counterexample:
  "flt (Finite 16777216) (num_val (PyInt 16777217))
   \<and> \<not> fgt (Finite 16777216) (num_val (PyInt 1073741824))
   \<and> fle (num_val (PyInt 16777217)) (num_val (PyInt 1073741824))
   \<and> in_float32_range (num_val (PyInt 16777217))
   \<and> in_float32_range (num_val (PyInt 1073741824))
   \<and> weight_of \<lparr>high_threshold = PyInt 1073741824, low_threshold = PyInt 16777217,
                high_weight = PyInt 6, low_weight = PyInt 1, very_low_weight = PyInt 3\<rparr>
        (Finite 16777216)
      = num_val (PyInt 1)
   \<and> num_val (PyInt 1) \<noteq> num_val (PyInt 3)"
  by (simp add: weight_of_def fgt_def float32_simps float32_max_def)






text \<open>
  Claim C10. The criterion that \<open>train_model\<close> builds, with its five arguments written
  out (\<open>low_threshold = 4.0\<close>), and a \<open>WeightedMSELoss\<close> built with the defaults
  (\<open>low_threshold = 4\<close>) give the same loss for every outputs and targets.
\<close>

theorem train_criterion_is_default:
  "forward train_criterion outputs targets = forward default_loss outputs targets"
proof -
  have eq: "weight_of train_criterion = weight_of default_loss"
    by (rule ext) (simp add: weight_of_def as_float32_def train_criterion_def default_loss_def)
  show ?thesis unfolding forward_def eq by (rule refl)
qed



section \<open>Properties of the training loop\<close>

lemma best_of_Nil [simp]: "best_of [] = PosInf"
  by (simp add: best_of_def)

lemma best_of_snoc: "best_of (vs @ [v]) = (if flt v (best_of vs) then v else best_of vs)"
  by (simp add: best_of_def)

lemma best_of_not_nan: "best_of vs \<noteq> NaN"
proof (induction vs rule: rev_induct)
  case Nil
  show ?case by simp
next
  case (snoc v vs)
  then show ?case by (cases v) (auto simp: best_of_snoc)
qed

lemma flt_step:
  "b \<noteq> NaN \<Longrightarrow> flt v (if flt u b then u else b) \<longleftrightarrow> flt v b \<and> (u = NaN \<or> flt v u)"
  by (cases v; cases u; cases b) auto

lemma flt_best_of:
  "flt v (best_of vs) \<longleftrightarrow> flt v PosInf \<and> (\<forall>u \<in> set vs. u = NaN \<or> flt v u)"
proof (induction vs rule: rev_induct)
  case Nil
  show ?case by simp
next
  case (snoc u vs)
  show ?case
    unfolding best_of_snoc flt_step [OF best_of_not_nan] snoc.IH by auto
qed

lemma train_batches_frame:
  "train_batches ext c bs s = Inr s' \<Longrightarrow>
     best_val_loss s' = best_val_loss s \<and> files s' = files s \<and> stdout s' = stdout s
     \<and> observed s' = observed s"
proof (induction bs arbitrary: s)
  case Nil
  then show ?case by simp
next
  case (Cons b bs)
  obtain inputs targets where b: "b = (inputs, targets)" by (cases b)
  from Cons.prems obtain l where
    "train_batches ext c bs (s\<lparr>loss := Some l, model := adam_step ext (model s) inputs targets\<rparr>) = Inr s'"
    by (auto simp: b Let_def split: sum.splits)
  from Cons.IH [OF this] show ?case by simp
qed

lemma val_batches_frame:
  "val_batches ext c bs (s, v) = Inr (s', v') \<Longrightarrow>
     best_val_loss s' = best_val_loss s \<and> files s' = files s \<and> stdout s' = stdout s
     \<and> observed s' = observed s \<and> model s' = model s"
proof (induction bs arbitrary: s v)
  case Nil
  then show ?case by simp
next
  case (Cons b bs)
  obtain inputs targets where b: "b = (inputs, targets)" by (cases b)
  from Cons.prems obtain l where
    "val_batches ext c bs (s\<lparr>loss := Some l\<rparr>, fadd v l) = Inr (s', v')"
    by (auto simp: b Let_def split: sum.splits)
  from Cons.IH [OF this] show ?case by simp
qed

lemma print_progress_frame:
  "print_progress epoch epochs v s = Inr s' \<Longrightarrow>
     best_val_loss s' = best_val_loss s \<and> files s' = files s \<and> observed s' = observed s
     \<and> model s' = model s \<and> loss s' = loss s"
  by (auto simp: print_progress_def split: if_splits option.splits)

lemma epoch_body_step:
  assumes "epoch_body ext tr va epochs path epoch s = Inr s'"
  shows "\<exists>v sd. observed s' = observed s @
                   [\<lparr>obs_val_loss = v, obs_saved = flt v (best_val_loss s), obs_params = sd\<rparr>]
           \<and> best_val_loss s' = (if flt v (best_val_loss s) then v else best_val_loss s)
           \<and> files s' = (if flt v (best_val_loss s) then (files s)(path \<mapsto> sd) else files s)"
proof -
  from assms obtain s1 s2 v where
    t: "train_batches ext train_criterion (loader (reshuffle ext epoch tr))
          (s\<lparr>model := set_training ext True (model s)\<rparr>) = Inr s1"
    and vb: "val_batches ext train_criterion (loader va)
          (s1\<lparr>model := set_training ext False (model s1)\<rparr>, Finite 0) = Inr (s2, v)"
    and p: "print_progress epoch epochs (fdiv_count v (length (loader va)))
          (save_if_better ext path (fdiv_count v (length (loader va))) s2) = Inr s'"
    by (auto simp: epoch_body_def Let_def split: sum.splits if_splits prod.splits)
  let ?v = "fdiv_count v (length (loader va))"
  have eq: "best_val_loss s2 = best_val_loss s" "files s2 = files s" "observed s2 = observed s"
    using train_batches_frame [OF t] val_batches_frame [OF vb] by simp_all
  show ?thesis
    using print_progress_frame [OF p] eq
    by (intro exI [of _ ?v] exI [of _ "state_dict ext (model s2)"])
      (simp add: save_if_better_def)
qed


lemma batches_of_Nil: "batches_of n [] = []"
  by (simp add: batches_of.simps)

lemma batches_of_single:
  assumes "xs \<noteq> []" and "length xs \<le> n"
  shows "batches_of n xs = [xs]"
proof -
  have "0 < n" using assms by (cases xs) auto
  then show ?thesis
    using assms by (subst batches_of.simps) (simp add: batches_of_Nil)
qed

lemma epochs_loop_numeral:
  "epochs_loop ext tr va epochs path (numeral k) s =
     (case epochs_loop ext tr va epochs path (pred_numeral k) s of
        Inl e \<Rightarrow> Inl e
      | Inr s' \<Rightarrow> epoch_body ext tr va epochs path (pred_numeral k) s')"
  by (simp add: numeral_eq_Suc)

lemma loader_single:
  "samples \<noteq> [] \<Longrightarrow> length samples \<le> 32 \<Longrightarrow> loader samples = [(map fst samples, map snd samples)]"
  by (simp add: loader_def batches_of_single)



lemma flt_not_nan: "flt a b \<Longrightarrow> a \<noteq> NaN \<and> b \<noteq> NaN"
  by (cases a; cases b) simp_all

lemma best_of_lower: "u \<in> set vs \<Longrightarrow> \<not> flt u (best_of vs)"
  using flt_best_of [of u vs] flt_irrefl [of u] flt_not_nan [of u "best_of vs"] by auto

lemma fle_refl: "a \<noteq> NaN \<Longrightarrow> fle a a"
  by (cases a) (simp_all add: flt_irrefl)

lemma flt_imp_fle: "flt a b \<Longrightarrow> fle a b"
  by (cases a; cases b) simp_all

lemma best_of_finite:
  assumes "rs \<noteq> []"
  shows "best_of (map Finite rs) = Finite (Min (set rs))"
  using assms
proof (induction rs rule: rev_induct)
  case Nil
  then show ?case by simp
next
  case (snoc r rs)
  show ?case
  proof (cases "rs = []")
    case True
    then show ?thesis by (simp add: best_of_def)
  next
    case False
    with snoc.IH have "best_of (map Finite rs) = Finite (Min (set rs))" by simp
    moreover have "Min (set (rs @ [r])) = min r (Min (set rs))"
      using False by simp
    ultimately show ?thesis
      by (simp add: best_of_snoc min_def)
  qed
qed

lemma loop_invariant:
  assumes "epochs_loop ext tr va epochs path n (initial_state m fs) = Inr s"
  shows "length (observed s) = n
       \<and> best_val_loss s = best_of (map obs_val_loss (observed s))
       \<and> (\<forall>i<n. obs_saved (observed s ! i) =
              flt (obs_val_loss (observed s ! i)) (best_of (take i (map obs_val_loss (observed s)))))"
  using assms
proof (induction n arbitrary: s)
  case 0
  then show ?case by (auto simp: initial_state_def)
next
  case (Suc n)
  from Suc.prems obtain s0 where
    run: "epochs_loop ext tr va epochs path n (initial_state m fs) = Inr s0"
    and body: "epoch_body ext tr va epochs path n s0 = Inr s"
    by (auto split: sum.splits)
  note IH = Suc.IH [OF run]
  from epoch_body_step [OF body] obtain v sd where
    obs: "observed s = observed s0 @
            [\<lparr>obs_val_loss = v, obs_saved = flt v (best_val_loss s0), obs_params = sd\<rparr>]"
    and best: "best_val_loss s = (if flt v (best_val_loss s0) then v else best_val_loss s0)"
    by blast
  have len: "length (observed s) = Suc n" using IH obs by simp
  have b: "best_val_loss s = best_of (map obs_val_loss (observed s))"
    using IH best obs by (simp add: best_of_snoc)
  have "obs_saved (observed s ! i) =
          flt (obs_val_loss (observed s ! i)) (best_of (take i (map obs_val_loss (observed s))))"
    if "i < Suc n" for i
  proof (cases "i < n")
    case True
    then show ?thesis using IH obs by (simp add: nth_append)
  next
    case False
    with that have "i = n" by simp
    then show ?thesis using IH obs by (simp add: nth_append)
  qed
  with len b show ?case by blast
qed

lemma checkpoint_invariant:
  assumes "epochs_loop ext tr va epochs path n (initial_state m fs) = Inr s"
  shows "(best_val_loss s = PosInf \<and> files s path = fs path)
       \<or> (\<exists>i<n. obs_val_loss (observed s ! i) = best_val_loss s
               \<and> files s path = Some (obs_params (observed s ! i)))"
  using assms
proof (induction n arbitrary: s)
  case 0
  then show ?case by (auto simp: initial_state_def)
next
  case (Suc n)
  from Suc.prems obtain s0 where
    run: "epochs_loop ext tr va epochs path n (initial_state m fs) = Inr s0"
    and body: "epoch_body ext tr va epochs path n s0 = Inr s"
    by (auto split: sum.splits)
  note IH = Suc.IH [OF run]
  have len: "length (observed s0) = n" using loop_invariant [OF run] by simp
  from epoch_body_step [OF body] obtain v sd where
    obs: "observed s = observed s0 @
            [\<lparr>obs_val_loss = v, obs_saved = flt v (best_val_loss s0), obs_params = sd\<rparr>]"
    and best: "best_val_loss s = (if flt v (best_val_loss s0) then v else best_val_loss s0)"
    and fl: "files s = (if flt v (best_val_loss s0) then (files s0)(path \<mapsto> sd) else files s0)"
    by blast
  show ?case
  proof (cases "flt v (best_val_loss s0)")
    case True
    then have "obs_val_loss (observed s ! n) = best_val_loss s
        \<and> files s path = Some (obs_params (observed s ! n))"
      using obs best fl len by (simp add: nth_append)
    then show ?thesis by blast
  next
    case False
    then have same: "best_val_loss s = best_val_loss s0" "files s = files s0"
      using best fl by simp_all
    from IH show ?thesis
    proof
      assume "best_val_loss s0 = PosInf \<and> files s0 path = fs path"
      then show ?thesis using same by simp
    next
      assume "\<exists>i<n. obs_val_loss (observed s0 ! i) = best_val_loss s0
               \<and> files s0 path = Some (obs_params (observed s0 ! i))"
      then obtain i where "i < n" "obs_val_loss (observed s0 ! i) = best_val_loss s0"
        "files s0 path = Some (obs_params (observed s0 ! i))" by blast
      then have "i < Suc n \<and> obs_val_loss (observed s ! i) = best_val_loss s
          \<and> files s path = Some (obs_params (observed s ! i))"
        using same obs len by (simp add: nth_append)
      then show ?thesis by blast
    qed
  qed
qed

lemma epochs_loop_prefix:
  "epochs_loop ext tr va epochs path (n + k) s0 = Inr s \<Longrightarrow>
     \<exists>s'. epochs_loop ext tr va epochs path n s0 = Inr s'"
  by (induction k arbitrary: s) (auto split: sum.splits)

lemma ball_take_nth:
  assumes "i \<le> length xs"
  shows "(\<forall>u \<in> set (take i xs). P u) \<longleftrightarrow> (\<forall>j<i. P (xs ! j))"
proof
  assume all: "\<forall>u \<in> set (take i xs). P u"
  show "\<forall>j<i. P (xs ! j)"
  proof (intro allI impI)
    fix j assume "j < i"
    then have "take i xs ! j \<in> set (take i xs)" using assms by (intro nth_mem) simp
    then show "P (xs ! j)" using all \<open>j < i\<close> by simp
  qed
next
  assume all: "\<forall>j<i. P (xs ! j)"
  show "\<forall>u \<in> set (take i xs). P u"
  proof
    fix u assume "u \<in> set (take i xs)"
    then obtain k where "k < length (take i xs)" "take i xs ! k = u"
      by (auto simp: in_set_conv_nth)
    then show "P u" using all by auto
  qed
qed

lemma train_model_loop:
  "train_model ext m X_train y_train X_val y_val epochs path fs = Inr s \<Longrightarrow>
     epochs_loop ext (zip X_train y_train) (zip X_val y_val) epochs path epochs (initial_state m fs) = Inr s"
  by (simp add: train_model_def split: if_splits)

lemma best_step_fle:
  assumes "epoch_body ext tr va epochs path n s = Inr s'" and "best_val_loss s \<noteq> NaN"
  shows "fle (best_val_loss s') (best_val_loss s)"
proof -
  from epoch_body_step [OF assms(1)] obtain v where
    "best_val_loss s' = (if flt v (best_val_loss s) then v else best_val_loss s)" by blast
  then show ?thesis using assms(2) by (simp add: flt_imp_fle fle_refl)
qed

text \<open>
  Claim C1, amended. In a run of \<open>train_model\<close> that returns, every epoch is on record,
  and the checkpoint file is written at an epoch if and only if that epoch's mean
  validation loss compares strictly below \<open>+inf\<close> and strictly below the loss of every
  prior epoch whose loss is a number. When all the losses are finite, this is: if and
  only if the loss is strictly less than every prior epoch's loss, so that the first
  epoch always writes. The losses 5, 3, 4, 2 give writes at epochs 1, 2 and 4 only.
\<close>

theorem checkpoint_written_iff_improvement:
  assumes "train_model ext m X_train y_train X_val y_val epochs model_path fs = Inr s"
  shows "length (observed s) = epochs
       \<and> (\<forall>i<epochs. obs_saved (observed s ! i) \<longleftrightarrow>
             flt (obs_val_loss (observed s ! i)) PosInf
             \<and> (\<forall>j<i. obs_val_loss (observed s ! j) = NaN
                      \<or> flt (obs_val_loss (observed s ! i)) (obs_val_loss (observed s ! j))))
       \<and> (\<forall>rs. map obs_val_loss (observed s) = map Finite rs \<longrightarrow>
             (\<forall>i<epochs. obs_saved (observed s ! i) \<longleftrightarrow> (\<forall>j<i. rs ! i < rs ! j)))"
proof -
  let ?vs = "map obs_val_loss (observed s)"
  note inv = loop_invariant [OF train_model_loop [OF assms]]
  have len: "length (observed s) = epochs" using inv by simp
  have general: "obs_saved (observed s ! i) \<longleftrightarrow>
      flt (obs_val_loss (observed s ! i)) PosInf
      \<and> (\<forall>j<i. obs_val_loss (observed s ! j) = NaN
               \<or> flt (obs_val_loss (observed s ! i)) (obs_val_loss (observed s ! j)))"
    if "i < epochs" for i
  proof -
    have "(\<forall>u \<in> set (take i ?vs). P u) \<longleftrightarrow> (\<forall>j<i. P (obs_val_loss (observed s ! j)))" for P
      using that len ball_take_nth [of i ?vs P] by simp
    then show ?thesis
      using inv that by (simp add: flt_best_of)
  qed
  have "obs_saved (observed s ! i) \<longleftrightarrow> (\<forall>j<i. rs ! i < rs ! j)"
    if "?vs = map Finite rs" and "i < epochs" for rs i
  proof -
    have l: "length rs = epochs" using that(1) len by (metis length_map)
    have "obs_val_loss (observed s ! j) = Finite (rs ! j)" if "j < epochs" for j
      using that \<open>?vs = map Finite rs\<close> len l by (metis nth_map)
    then show ?thesis using general [OF that(2)] that(2) by simp
  qed
  with len general show ?thesis by blast
qed

lemmas run_simps =
  train_model_def initial_state_def epoch_body_def loader_single scripted_def four_rows_def
  two_rows_def forward_def broadcast_def weight_of_train torch_mean_def
  fsum_def fsub_def fgt_def save_if_better_def print_progress_def signed_inf_def
  epochs_loop_numeral Let_def

lemma sample_run:
  "train_model (scripted [map Finite [14, 12, 10, 10], map Finite [12, 12, 12, 10],
        map Finite [14, 10, 10, 10], map Finite [12, 12, 10, 10]]) 0
      [[Finite 0]] [Finite 10] four_rows (map Finite [10, 10, 10, 10]) 4 ''models/best_model.pth'' Map.empty
   = Inr \<lparr>model = 4, loss = Some (Finite 2), best_val_loss = Finite 2,
          files = [''models/best_model.pth'' \<mapsto> 4], stdout = [],
          observed = [\<lparr>obs_val_loss = Finite 5, obs_saved = True, obs_params = 1\<rparr>,
                      \<lparr>obs_val_loss = Finite 3, obs_saved = True, obs_params = 2\<rparr>,
                      \<lparr>obs_val_loss = Finite 4, obs_saved = False, obs_params = 3\<rparr>,
                      \<lparr>obs_val_loss = Finite 2, obs_saved = True, obs_params = 4\<rparr>]\<rparr>"
  by (simp add: run_simps)

text \<open>A run with the mean validation losses 5, 3, 4, 2: it writes at epochs 1, 2 and 4.\<close>

theorem checkpoint_written_iff_improvement_witness:
  "(\<exists>s. train_model (scripted [map Finite [14, 12, 10, 10], map Finite [12, 12, 12, 10],
            map Finite [14, 10, 10, 10], map Finite [12, 12, 10, 10]]) 0
          [[Finite 0]] [Finite 10] four_rows (map Finite [10, 10, 10, 10]) 4
          ''models/best_model.pth'' Map.empty = Inr s
        \<and> map obs_val_loss (observed s) = map Finite [5, 3, 4, 2]
        \<and> map obs_saved (observed s) = [True, True, False, True]
        \<and> length (observed s) = 4)"
  using checkpoint_written_iff_improvement [OF sample_run] sample_run by simp

text \<open>
  Claim C1 as stated fails at a first epoch whose mean validation loss is not a number:
  \<open>nan < inf\<close> is false, nothing is written at epoch 1, and epoch 2 with loss 4 writes.
\<close>

theorem checkpoint_first_epoch_counterexample:
  "\<exists>s. train_model (scripted [[NaN, Finite 10], [Finite 12, Finite 12]]) 0
          [[Finite 0]] [Finite 10] two_rows [Finite 10, Finite 10] 2
          ''models/best_model.pth'' Map.empty = Inr s
      \<and> map obs_val_loss (observed s) = [NaN, Finite 4]
      \<and> map obs_saved (observed s) = [False, True]"
  by (simp add: run_simps)

text \<open>
  Claim C9, amended. In a run of \<open>train_model\<close> that returns, after each of its epochs
  (after \<open>n\<close> passes of the loop, \<open>n\<close> up to \<open>epochs\<close>): \<open>best_val_loss\<close> is \<open>+inf\<close>
  before the first epoch; no mean validation loss so far compares strictly below it; the
  next epoch does not increase it; and either it is still \<open>+inf\<close> and the checkpoint file
  is as it was before the run, or it is the mean validation loss of an epoch completed so
  far and the checkpoint file holds the parameters of that epoch. When the losses so far
  are finite (and there is one), \<open>best_val_loss\<close> is their minimum and the file holds the
  parameters of an epoch that achieved it.
\<close>

theorem best_val_loss_running_minimum:
  assumes "train_model ext m X_train y_train X_val y_val epochs model_path fs = Inr s_end"
    and "n \<le> epochs"
  shows "\<exists>s. epochs_loop ext (zip X_train y_train) (zip X_val y_val) epochs model_path n
               (initial_state m fs) = Inr s
           \<and> length (observed s) = n
           \<and> (n = 0 \<longrightarrow> best_val_loss s = PosInf)
           \<and> (\<forall>ob \<in> set (observed s). \<not> flt (obs_val_loss ob) (best_val_loss s))
           \<and> ((best_val_loss s = PosInf \<and> files s model_path = fs model_path)
               \<or> (\<exists>i<n. obs_val_loss (observed s ! i) = best_val_loss s
                        \<and> files s model_path = Some (obs_params (observed s ! i))))
           \<and> (\<forall>s'. epoch_body ext (zip X_train y_train) (zip X_val y_val) epochs model_path n s
                       = Inr s' \<longrightarrow> fle (best_val_loss s') (best_val_loss s))
           \<and> (\<forall>rs. rs \<noteq> [] \<and> map obs_val_loss (observed s) = map Finite rs \<longrightarrow>
                  best_val_loss s = Finite (Min (set rs))
                  \<and> (\<exists>i<n. rs ! i = Min (set rs)
                          \<and> files s model_path = Some (obs_params (observed s ! i))))"
proof -
  let ?tr = "zip X_train y_train" and ?va = "zip X_val y_val"
  from assms(2) obtain k where k: "epochs = n + k" by (auto simp: le_iff_add)
  from train_model_loop [OF assms(1)] obtain s where
    run: "epochs_loop ext ?tr ?va epochs model_path n (initial_state m fs) = Inr s"
    using epochs_loop_prefix [of ext ?tr ?va epochs model_path n k] k by auto
  note inv = loop_invariant [OF run]
  note ck = checkpoint_invariant [OF run]
  let ?vs = "map obs_val_loss (observed s)"
  have best: "best_val_loss s = best_of ?vs" using inv by simp
  have len: "length (observed s) = n" using inv by simp
  have zero: "n = 0 \<longrightarrow> best_val_loss s = PosInf"
    using best len by auto
  have lower: "\<forall>ob \<in> set (observed s). \<not> flt (obs_val_loss ob) (best_val_loss s)"
    using best_of_lower [of _ ?vs] best by auto
  have mono: "\<forall>s'. epoch_body ext ?tr ?va epochs model_path n s = Inr s'
                \<longrightarrow> fle (best_val_loss s') (best_val_loss s)"
    using best_step_fle best best_of_not_nan [of ?vs] by metis
  have fin: "best_val_loss s = Finite (Min (set rs))
             \<and> (\<exists>i<n. rs ! i = Min (set rs)
                     \<and> files s model_path = Some (obs_params (observed s ! i)))"
    if "rs \<noteq> []" and vs: "?vs = map Finite rs" for rs
  proof -
    have b: "best_val_loss s = Finite (Min (set rs))"
      using best vs best_of_finite [OF that(1)] by simp
    have l: "length rs = n" using vs len by (metis length_map)
    from ck b obtain i where i: "i < n" "obs_val_loss (observed s ! i) = best_val_loss s"
      "files s model_path = Some (obs_params (observed s ! i))" by auto
    have "obs_val_loss (observed s ! i) = Finite (rs ! i)"
      using i(1) vs len l by (metis nth_map)
    with i b show ?thesis by auto
  qed
  show ?thesis
    using run len zero lower ck mono fin by blast
qed


text \<open>A run with the mean validation losses 4, 1, 9.\<close>

lemma three_epochs_run:
  "train_model (scripted [map Finite [12, 12], map Finite [11, 11], map Finite [13, 13]]) 0
      [[Finite 0]] [Finite 10] two_rows (map Finite [10, 10]) 3 ''models/best_model.pth'' Map.empty
   = Inr \<lparr>model = 3, loss = Some (Finite 9), best_val_loss = Finite 1,
          files = [''models/best_model.pth'' \<mapsto> 2], stdout = [],
          observed = [\<lparr>obs_val_loss = Finite 4, obs_saved = True, obs_params = 1\<rparr>,
                      \<lparr>obs_val_loss = Finite 1, obs_saved = True, obs_params = 2\<rparr>,
                      \<lparr>obs_val_loss = Finite 9, obs_saved = False, obs_params = 3\<rparr>]\<rparr>"
  by (simp add: run_simps)

theorem best_val_loss_running_minimum_witness:
  "(3::nat) \<le> 3
   \<and> (\<exists>s. train_model (scripted [map Finite [12, 12], map Finite [11, 11], map Finite [13, 13]]) 0
          [[Finite 0]] [Finite 10] two_rows (map Finite [10, 10]) 3
          ''models/best_model.pth'' Map.empty = Inr s
        \<and> map obs_val_loss (observed s) = map Finite [4, 1, 9]
        \<and> best_val_loss s = Finite 1
        \<and> files s ''models/best_model.pth'' = Some (obs_params (observed s ! 1)))"
  using best_val_loss_running_minimum [OF three_epochs_run, of 3] three_epochs_run by simp

text \<open>
  Claim C9 as stated fails when no loss compares below \<open>+inf\<close>: after a first epoch with
  the mean validation loss \<open>inf\<close>, \<open>best_val_loss\<close> is \<open>inf\<close> and there is no checkpoint
  file, so the file does not hold the parameters of an epoch achieving the minimum.
\<close>

theorem no_checkpoint_counterexample:
  "\<exists>s. train_model (scripted [[PosInf, Finite 10]]) 0
          [[Finite 0]] [Finite 10] two_rows [Finite 10, Finite 10] 1
          ''models/best_model.pth'' Map.empty = Inr s
      \<and> map obs_val_loss (observed s) = [PosInf]
      \<and> best_val_loss s = PosInf
      \<and> files s ''models/best_model.pth'' = None"
  by (simp add: run_simps)

subsection \<open>The progress line\<close>

lemma foldl_fadd_replicate:
  "foldl fadd (Finite z) (replicate n (Finite a)) = Finite (z + real n * a)"
  by (induction n arbitrary: z) (simp_all add: algebra_simps)

lemma batches_of_full:
  "0 < n \<Longrightarrow> length xs = n \<Longrightarrow> batches_of n (xs @ ys) = xs # batches_of n ys"
  by (subst batches_of.simps) auto

lemma loader_val33:
  "loader val33 =
     [(replicate 32 [Finite 11], replicate 32 (Finite 10)), ([[Finite 13]], [Finite 10])]"
  by (simp add: val33_def loader_def batches_of_full batches_of_single)

lemma forward_full_batch:
  "forward train_criterion (replicate 32 (Finite 11)) (replicate 32 (Finite 10)) = Inr (Finite 1)"
  by (simp add: forward_def broadcast_def weight_of_train torch_mean_def
      fsum_def fsub_def fgt_def foldl_fadd_replicate)

lemma first_feature_epoch:
  "epoch_body first_feature [([Finite 12], Finite 10)] val33 epochs path k s =
     print_progress k epochs (Finite 5)
       (save_if_better first_feature path (Finite 5) (s\<lparr>loss := Some (Finite 9)\<rparr>))"
  by (simp add: epoch_body_def loader_val33 loader_single first_feature_def Let_def
      forward_def broadcast_def weight_of_train torch_mean_def
      fsum_def fsub_def fgt_def foldl_fadd_replicate)

lemma first_feature_quiet:
  "n < 100 \<Longrightarrow>
     \<exists>s. epochs_loop first_feature [([Finite 12], Finite 10)] val33 100 path n (initial_state m fs)
           = Inr s \<and> stdout s = [] \<and> model s = m"
proof (induction n)
  case 0
  show ?case by (simp add: initial_state_def)
next
  case (Suc n)
  then obtain s where
    s: "epochs_loop first_feature [([Finite 12], Finite 10)] val33 100 path n (initial_state m fs) = Inr s"
      "stdout s = []" "model s = m"
    by auto
  have "(n + 1) mod 100 \<noteq> 0" using Suc.prems by simp
  then show ?case
    using s by (simp add: first_feature_epoch print_progress_def save_if_better_def)
qed

text \<open>
  Claim C6 does not hold of the code. The loop over the validation batches assigns the
  variable \<open>loss\<close> that the progress line prints, so the line shows the loss of the last
  validation batch. In this run of 100 epochs the training batch has the loss 4 in every
  epoch, the two validation batches have the losses 1 and 9, and the one line printed
  reads \<open>Loss: 9\<close>, \<open>Val Loss: 5\<close>.
\<close>

theorem progress_line_shows_validation_batch_loss:
  "\<exists>s. train_model first_feature 0 [[Finite 12]] [Finite 10]
          (replicate 32 [Finite 11] @ [[Finite 13]]) (replicate 32 (Finite 10) @ [Finite 10])
          100 ''models/best_model.pth'' Map.empty = Inr s
      \<and> stdout s = [\<lparr>pl_epoch = 100, pl_epochs = 100, pl_loss = Finite 9, pl_val_loss = Finite 5\<rparr>]
      \<and> forward train_criterion (net first_feature (model s) [[Finite 12]]) [Finite 10]
          = Inr (Finite 4)
      \<and> forward train_criterion (net first_feature (model s) [[Finite 13]]) [Finite 10]
          = Inr (Finite 9)"
proof -
  obtain s where
    s: "epochs_loop first_feature [([Finite 12], Finite 10)] val33 100 ''models/best_model.pth'' 99
          (initial_state 0 Map.empty) = Inr s" "stdout s = []" "model s = 0"
    using first_feature_quiet [of 99 "''models/best_model.pth''" 0 Map.empty] by auto
  have "epochs_loop first_feature [([Finite 12], Finite 10)] val33 100 ''models/best_model.pth'' 100
          (initial_state 0 Map.empty)
        = epoch_body first_feature [([Finite 12], Finite 10)] val33 100 ''models/best_model.pth'' 99 s"
    using s(1) by (simp add: epochs_loop_numeral)
  then show ?thesis
    using s(2,3)
    by (simp add: train_model_def val33_def [symmetric] first_feature_epoch print_progress_def
        save_if_better_def)
      (simp add: first_feature_def forward_def broadcast_def weight_of_train
        torch_mean_def fsum_def fsub_def fgt_def)
qed

section \<open>Properties of permutation_importance\<close>

lemma shuffle_from_length: "length (fst (shuffle_from gen k i xs)) = length xs"
  by (induction gen k i xs rule: shuffle_from.induct) (simp_all add: Let_def)

lemma shuffle_from_draws: "snd (shuffle_from gen k i xs) = k + i"
  by (induction gen k i xs rule: shuffle_from.induct) (simp_all add: Let_def)

lemma shuffle_from_mset: "i < length xs \<Longrightarrow> mset (fst (shuffle_from gen k i xs)) = mset xs"
proof (induction gen k i xs rule: shuffle_from.induct)
  case (1 gen k xs)
  show ?case by simp
next
  case (2 gen k i xs)
  let ?j = "gen k mod (Suc i + 1)"
  have j: "?j < length xs" using "2.prems" by (simp add: less_le_trans [OF mod_less_divisor])
  have "mset (xs[Suc i := xs ! ?j, ?j := xs ! Suc i]) = mset xs"
    using mset_swap [OF j "2.prems"] by simp
  then show ?case using "2.IH" [of ?j] "2.prems" by (simp add: Let_def)
qed

lemma np_shuffle_length: "length (fst (np_shuffle gen k xs)) = length xs"
  by (simp add: np_shuffle_def shuffle_from_length)

lemma np_shuffle_draws: "snd (np_shuffle gen k xs) = k + (length xs - 1)"
  by (simp add: np_shuffle_def shuffle_from_draws)

lemma np_shuffle_mset: "mset (fst (np_shuffle gen k xs)) = mset xs"
proof (cases xs)
  case Nil
  then show ?thesis by (simp add: np_shuffle_def)
next
  case (Cons x ys)
  then show ?thesis by (simp add: np_shuffle_def shuffle_from_mset)
qed

lemma map2_update_restore:
  "length vs = length rs \<Longrightarrow>
     map2 (\<lambda>r v. r[col := v]) (map2 (\<lambda>r v. r[col := v]) rs vs) (map (\<lambda>r. r ! col) rs) = rs"
  by (induction vs rs rule: list_induct2) simp_all

lemma set_column_restore:
  "length vs = length (rows X) \<Longrightarrow> set_column (set_column X col vs) col (get_column X col) = X"
  using map2_update_restore [of vs "rows X" col] by (simp add: set_column_def get_column_def)

lemma map2_update_other:
  "length vs = length rs \<Longrightarrow> c \<noteq> col \<Longrightarrow>
     map (\<lambda>r. r ! c) (map2 (\<lambda>r v. r[col := v]) rs vs) = map (\<lambda>r. r ! c) rs"
  by (induction vs rs rule: list_induct2) simp_all

lemma get_column_other:
  "length vs = length (rows X) \<Longrightarrow> c \<noteq> col \<Longrightarrow> get_column (set_column X col vs) c = get_column X c"
  using map2_update_other [of vs "rows X" c col] by (simp add: set_column_def get_column_def)

lemma map2_update_same:
  "length vs = length rs \<Longrightarrow> \<forall>r \<in> set rs. col < length r \<Longrightarrow>
     map (\<lambda>r. r ! col) (map2 (\<lambda>r v. r[col := v]) rs vs) = vs"
  by (induction vs rs rule: list_induct2) simp_all

lemma get_column_same:
  "length vs = length (rows X) \<Longrightarrow> \<forall>r \<in> set (rows X). col < length r \<Longrightarrow>
     get_column (set_column X col vs) col = vs"
  using map2_update_same [of vs "rows X" col] by (simp add: set_column_def get_column_def)

lemma get_column_length: "length (get_column X col) = length (rows X)"
  by (simp add: get_column_def)

text \<open>The importances of a list of columns, the draws of each starting where the previous ones ended.\<close>

lemma columns_loop_spec:
  assumes "b < length h" and "h ! b = X"
  shows "columns_loop predict metric gen y (metric y (predict (rows X))) b cols (h, k, acc) =
           (h, k + length cols * (length (rows X) - 1),
            acc @ map (\<lambda>(i, col). column_importance predict metric gen y X
                                    (k + i * (length (rows X) - 1)) col)
                    (zip [0..<length cols] cols))"
  using assms
proof (induction cols arbitrary: k acc)
  case Nil
  show ?case by simp
next
  case (Cons col cols)
  define n where "n = length (rows X) - 1"
  let ?sh = "np_shuffle gen k (get_column X col)"
  have len: "length (fst ?sh) = length (rows X)"
    by (simp add: np_shuffle_length get_column_length)
  have k1: "snd ?sh = k + n"
    by (simp add: np_shuffle_draws get_column_length n_def)
  have restore: "set_column (set_column X col (fst ?sh)) col (get_column X col) = X"
    using len by (rule set_column_restore)
  have hb: "h[b := X] = h" using Cons.prems by (metis list_update_id)
  have step: "columns_loop predict metric gen y (metric y (predict (rows X))) b (col # cols) (h, k, acc)
      = columns_loop predict metric gen y (metric y (predict (rows X))) b cols
          (h, k + n, acc @ [column_importance predict metric gen y X k col])"
    using Cons.prems restore k1 hb
    by (simp add: Let_def split_beta column_importance_def)
  have shift: "map (\<lambda>(i, c). column_importance predict metric gen y X (k + i * n) c)
                 (zip [0..<length (col # cols)] (col # cols))
      = column_importance predict metric gen y X k col #
        map (\<lambda>(i, c). column_importance predict metric gen y X (k + n + i * n) c)
          (zip [0..<length cols] cols)"
  proof -
    have "[0..<length (col # cols)] = 0 # map Suc [0..<length cols]"
      by (simp add: upt_conv_Cons map_Suc_upt del: upt_Suc)
    then show ?thesis
      by (simp add: zip_map1 split_beta add.assoc del: upt_Suc)
  qed
  show ?case
    unfolding step Cons.IH [OF Cons.prems] shift n_def [symmetric]
    by (simp add: add.assoc)
qed


lemma permutation_importance_result:
  assumes "X_test < length h"
  shows "permutation_importance predict metric gen y_test h X_test k =
           Inr (h @ [h ! X_test],
                k + shape1 (h ! X_test) * (length (rows (h ! X_test)) - 1),
                map (\<lambda>col. column_importance predict metric gen y_test (h ! X_test)
                               (k + col * (length (rows (h ! X_test)) - 1)) col)
                  [0..<shape1 (h ! X_test)])"
proof -
  let ?X = "h ! X_test" and ?h1 = "h @ [h ! X_test]"
  have b: "length h < length ?h1" "?h1 ! length h = ?X" by simp_all
  have a: "?h1 ! X_test = ?X" using assms by (simp add: nth_append)
  show ?thesis
    using assms
    unfolding permutation_importance_def np_copy_def
    by (simp add: a columns_loop_spec [OF b] zip_same_conv_map comp_def del: upt_Suc)
qed

lemmas importance_simps =
  permutation_importance_def np_copy_def small_X_def row_sum_def np_shuffle_def Let_def
  get_column_def set_column_def fsum_def fsub_def plain_mse_def torch_mean_def
  numeral_2_eq_2

text \<open>
  Claim C4. \<open>permutation_importance\<close> returns one importance per column, in the order of
  the columns. The importance of column \<open>col\<close> is the score of the array in which that
  column alone is replaced by its shuffle, minus the baseline score of the original
  array: the shuffled column has the values of the original column in another order, and
  every other column of the array scored is the original one. So each column is
  perturbed alone, the previous one being restored before.
\<close>

theorem permutation_importance_per_column:
  assumes "X_test < length h"
  shows "\<exists>h' k' importances.
           permutation_importance predict metric gen y_test h X_test k = Inr (h', k', importances)
         \<and> length importances = shape1 (h ! X_test)
         \<and> (\<forall>col < shape1 (h ! X_test).
               let shuffled = fst (np_shuffle gen (k + col * (length (rows (h ! X_test)) - 1))
                                     (get_column (h ! X_test) col));
                   perturbed = set_column (h ! X_test) col shuffled
               in importances ! col =
                    fsub (metric y_test (predict (rows perturbed)))
                         (metric y_test (predict (rows (h ! X_test))))
                \<and> mset shuffled = mset (get_column (h ! X_test) col)
                \<and> (\<forall>c. c \<noteq> col \<longrightarrow> get_column perturbed c = get_column (h ! X_test) c)
                \<and> ((\<forall>r \<in> set (rows (h ! X_test)). col < length r)
                       \<longrightarrow> get_column perturbed col = shuffled))"
proof -
  let ?X = "h ! X_test"
  let ?n = "length (rows ?X) - 1"
  let ?imps = "map (\<lambda>col. column_importance predict metric gen y_test ?X (k + col * ?n) col)
                 [0..<shape1 ?X]"
  have "let shuffled = fst (np_shuffle gen (k + col * ?n) (get_column ?X col));
            perturbed = set_column ?X col shuffled
        in ?imps ! col =
             fsub (metric y_test (predict (rows perturbed))) (metric y_test (predict (rows ?X)))
         \<and> mset shuffled = mset (get_column ?X col)
         \<and> (\<forall>c. c \<noteq> col \<longrightarrow> get_column perturbed c = get_column ?X c)
         \<and> ((\<forall>r \<in> set (rows ?X). col < length r) \<longrightarrow> get_column perturbed col = shuffled)"
    if "col < shape1 ?X" for col
  proof -
    let ?sh = "fst (np_shuffle gen (k + col * ?n) (get_column ?X col))"
    have len: "length ?sh = length (rows ?X)"
      by (simp add: np_shuffle_length get_column_length)
    have "?imps ! col = column_importance predict metric gen y_test ?X (k + col * ?n) col"
      using that by simp
    then show ?thesis
      using get_column_other [OF len] get_column_same [OF len]
      by (simp add: Let_def column_importance_def np_shuffle_mset)
  qed
  then show ?thesis
    using permutation_importance_result [OF assms, of predict metric gen y_test k] by simp
qed

text \<open>
  Three rows, two columns, targets equal to the row sums. With the second column
  shuffled while the first one is back in place the score is 200; had the first one
  stayed shuffled it would be 242.
\<close>

theorem permutation_importance_per_column_witness:
  "0 < length [small_X]
   \<and> permutation_importance row_sum (\<lambda>y p. plain_mse p y) (\<lambda>k. 0)
        [Finite 11, Finite 22, Finite 33] [small_X] 0 0
      = Inr ([small_X, small_X], 4, [Finite 2, Finite 200])"
  using permutation_importance_per_column [of 0 "[small_X]" row_sum "\<lambda>y p. plain_mse p y"
      "\<lambda>k. 0" "[Finite 11, Finite 22, Finite 33]" 0]
  by (simp add: importance_simps)

text \<open>
  Claim C5. After \<open>permutation_importance\<close> returns, the caller's array \<open>X_test\<close> is what it
  was before the call, as is every other array that existed; the call allocates one
  array, the copy it works on.
\<close>

theorem permutation_importance_leaves_input:
  assumes "X_test < length h"
  shows "\<exists>h' k' importances.
           permutation_importance predict metric gen y_test h X_test k = Inr (h', k', importances)
         \<and> h' ! X_test = h ! X_test
         \<and> take (length h) h' = h
         \<and> length h' = Suc (length h)"
  using assms permutation_importance_result [OF assms, of predict metric gen y_test k]
  by (simp add: nth_append)

text \<open>The same call on the second of two arrays.\<close>

theorem permutation_importance_leaves_input_witness:
  "1 < length [small_X, small_X]
   \<and> (\<exists>k' importances. permutation_importance row_sum (\<lambda>y p. plain_mse p y) (\<lambda>k. 0)
        [Finite 11, Finite 22, Finite 33] [small_X, small_X] 1 0
      = Inr ([small_X, small_X, small_X], k', importances))"
  using permutation_importance_leaves_input [of 1 "[small_X, small_X]" row_sum
      "\<lambda>y p. plain_mse p y" "\<lambda>k. 0" "[Finite 11, Finite 22, Finite 33]" 0]
  by (simp add: importance_simps)

section \<open>Properties of evaluate_model\<close>
















section \<open>Properties of plot_distribution\<close>

lemma upt_30: "[0..<30] = [0,1,2,3,4,5,6,7,8,9,10,11,12,13,14,15,16,17,18,19,20,21,22,23,24,25,26,27,28,29]"
  by (simp add: upt_rec)

lemmas overlap_simps =
  plot_distribution_def overlap_of_def histogram_range_def linspace_def histogram_density_def
  cumulative_def np_diff_def fsum_def Let_def upt_30 signed_inf_def

text \<open>
  Two runs of the computation: a sample against itself, and a sample against one that
  shares a third of its mass in each of the two bins that are not empty.
\<close>

lemma overlap_identical_example: "plot_distribution [0, 3] [0, 3] = Finite 1"
  by (simp add: overlap_simps)

lemma overlap_partial_example: "plot_distribution [0, 3, 3] [0, 0, 3, 100] = Finite (2 / 3)"
  by (simp add: overlap_simps)

text \<open>
  Claim C7 does not hold of the code for samples with disjoint ranges. With the actual
  values 0 and 3 and the predicted values 5 and 6, no predicted value lies between the
  edges, the counts of the second histogram are all zero, its densities are zero divided
  by zero, and the overlap returned is \<open>nan\<close>, not 0.
\<close>

theorem overlap_disjoint_is_nan:
  "plot_distribution [0, 3] [5, 6] = NaN"
  by (simp add: overlap_simps)

end
